theory Spec2Isabelle
  imports Main
begin

section \<open>Data model (prisma schema, as used by OrdersService and PaymentsService)\<close>

text \<open>
  Tables are lists of rows; every row carries its primary key. Monetary amounts
  (DECIMAL(10,2) columns) are integers in pesewas. Timestamps are natural numbers.
  Optional DTO fields and nullable columns are \<open>option\<close> values.
\<close>

datatype OrderStatus =
    PLACED | ACCEPTED | PREPARING | READY_FOR_PICKUP | OUT_FOR_DELIVERY
  | DELIVERED | COMPLETED | CANCELLED | FAILED | DISPUTED

datatype PaymentStatus =
    PAYMENT_PENDING | PAYMENT_PROCESSING | PAYMENT_COMPLETED
  | PAYMENT_FAILED | PAYMENT_REFUNDED | PAYMENT_DISPUTED

datatype StoreStatus = DRAFT | PENDING_VERIFICATION | ACTIVE | SUSPENDED | DEACTIVATED

datatype DeliveryOption = PICKUP | MERCHANT_DELIVERY | CUSTOMER_ARRANGED

datatype PaymentMethod = MOBILE_MONEY | CARD | BANK_TRANSFER | CASH_ON_DELIVERY

record Product =
  p_id :: string
  p_storeId :: string
  p_name :: string
  p_description :: "string option"
  p_sku :: "string option"
  p_price :: int
  p_trackInventory :: bool
  p_stockQuantity :: "int option"
  p_isAvailable :: bool
  p_orderCount :: int

record ProductVariant =
  v_id :: string
  v_productId :: string
  v_name :: string
  v_price :: "int option"
  v_stockQuantity :: "int option"
  v_isAvailable :: bool

record Store =
  s_id :: string
  s_merchantId :: string
  s_status :: StoreStatus
  s_isPublished :: bool

record Merchant =
  m_id :: string
  m_userId :: string

record StatusEntry =
  h_status :: OrderStatus
  h_timestamp :: nat
  h_note :: string

record OrderItem =
  oi_productId :: string
  oi_variantId :: "string option"
  oi_productName :: string
  oi_variantName :: "string option"
  oi_price :: int
  oi_quantity :: int
  oi_subtotal :: int
  oi_snapshotDescription :: "string option"
  oi_snapshotSku :: "string option"

record Order =
  o_id :: string
  o_orderNumber :: string
  o_storeId :: string
  o_customerName :: string
  o_customerPhone :: string
  o_customerEmail :: "string option"
  o_status :: OrderStatus
  o_subtotal :: int
  o_deliveryFee :: int
  o_tax :: int
  o_discount :: int
  o_total :: int
  o_deliveryOption :: DeliveryOption
  o_deliveryAddress :: "string option"
  o_deliveryCity :: "string option"
  o_paymentMethod :: PaymentMethod
  o_paymentStatus :: PaymentStatus
  o_paidAt :: "nat option"
  o_trackingUrl :: "string option"
  o_statusHistory :: "StatusEntry list"
  o_merchantNotes :: "string option"
  o_acceptedAt :: "nat option"
  o_preparingAt :: "nat option"
  o_readyAt :: "nat option"
  o_deliveredAt :: "nat option"
  o_completedAt :: "nat option"
  o_cancelledAt :: "nat option"
  o_cancellationReason :: "string option"
  o_items :: "OrderItem list"

text \<open>The processor payload stored in \<open>webhookPayload\<close>: the fields the engine reads.\<close>

record PaystackData =
  pd_reference :: string
  pd_status :: string

record Payment =
  pay_id :: string
  pay_orderId :: string
  pay_amount :: int
  pay_reference :: string
  pay_status :: PaymentStatus
  pay_verifiedAt :: "nat option"
  pay_webhookReceived :: bool
  pay_webhookVerified :: bool
  pay_webhookPayload :: "PaystackData option"

record DB =
  products :: "Product list"
  variants :: "ProductVariant list"
  stores :: "Store list"
  merchants :: "Merchant list"
  orders :: "Order list"
  payments :: "Payment list"

subsection \<open>Request DTOs\<close>

record CreateOrderItemDto =
  productId :: string
  variantId :: "string option"
  quantity :: int

record CreateOrderDto =
  storeId :: string
  customerName :: string
  customerPhone :: string
  customerEmail :: "string option"
  items :: "CreateOrderItemDto list"
  deliveryOption :: DeliveryOption
  deliveryAddress :: "string option"
  deliveryCity :: "string option"
  paymentMethod :: PaymentMethod

record UpdateOrderStatusDto =
  us_status :: "OrderStatus option"
  us_merchantNotes :: "string option"
  us_trackingUrl :: "string option"

record CancelOrderDto =
  cancellationReason :: "string option"

text \<open>
  What a request takes from outside the database: the clock, the primary key the
  ORM gives a new order row, and the successive random order numbers drawn by
  \<open>generateOrderNumber\<close>.
\<close>

record Env =
  now :: nat
  newOrderId :: string
  orderNumberDraws :: "string list"

subsection \<open>Exceptions\<close>

datatype error =
    StoreNotFound
  | StoreNotAvailable
  | DeliveryAddressRequired
  | SomeProductsNotAvailable
  | ProductNotFound string
  | VariantNotAvailable string
  | InsufficientStock string int
  | OrderNotFound
  | NotOrderOwner
  | InvalidTransition OrderStatus "OrderStatus option"
  | CannotCancel OrderStatus
  | OnlyMerchantCanCancel
  | InvalidOrderOrPhone
  | PaymentNotFound
  | InvalidWebhookSignature
  | JsonSyntaxError
  | ProcessorError
  | PrismaError

text \<open>
  The exception class each of them is thrown as. A syntax error of \<open>JSON.parse\<close> and
  an error of the ORM client are not HTTP exceptions of the framework. \<open>ProcessorError\<close>
  is the processor client's own \<open>BadRequestException\<close>; an error of the transport is
  rethrown as it comes.
\<close>

datatype http_exception =
  NotFoundException | BadRequestException | ForbiddenException | InternalError

fun exception_of :: "error \<Rightarrow> http_exception" where
  "exception_of StoreNotFound = NotFoundException"
| "exception_of StoreNotAvailable = BadRequestException"
| "exception_of DeliveryAddressRequired = BadRequestException"
| "exception_of SomeProductsNotAvailable = BadRequestException"
| "exception_of (ProductNotFound pid) = BadRequestException"
| "exception_of (VariantNotAvailable vid) = BadRequestException"
| "exception_of (InsufficientStock name available) = BadRequestException"
| "exception_of OrderNotFound = NotFoundException"
| "exception_of NotOrderOwner = ForbiddenException"
| "exception_of (InvalidTransition cur nxt) = BadRequestException"
| "exception_of (CannotCancel st) = BadRequestException"
| "exception_of OnlyMerchantCanCancel = ForbiddenException"
| "exception_of InvalidOrderOrPhone = ForbiddenException"
| "exception_of PaymentNotFound = NotFoundException"
| "exception_of InvalidWebhookSignature = BadRequestException"
| "exception_of JsonSyntaxError = InternalError"
| "exception_of ProcessorError = BadRequestException"
| "exception_of PrismaError = InternalError"

text \<open>JavaScript truthiness of an optional string: \<open>undefined\<close>, \<open>null\<close> and the empty string are falsy.\<close>

definition js_truthy :: "string option \<Rightarrow> bool" where
  "js_truthy s = (case s of None \<Rightarrow> False | Some t \<Rightarrow> t \<noteq> [])"

section \<open>Database writes\<close>

text \<open>
  The \<open>data\<close> argument of an ORM update names the columns to set; a column
  that is not named keeps its value. A patch field is \<open>None\<close> for a column
  that is not named.
\<close>

record OrderPatch =
  set_status :: "OrderStatus option"
  set_paymentStatus :: "PaymentStatus option"
  set_paidAt :: "nat option"
  set_merchantNotes :: "string option"
  set_trackingUrl :: "string option"
  set_statusHistory :: "StatusEntry list option"
  set_acceptedAt :: "nat option"
  set_preparingAt :: "nat option"
  set_readyAt :: "nat option"
  set_deliveredAt :: "nat option"
  set_completedAt :: "nat option"
  set_cancelledAt :: "nat option"
  set_cancellationReason :: "string option"

definition no_patch :: OrderPatch where
  "no_patch = \<lparr> set_status = None, set_paymentStatus = None, set_paidAt = None,
     set_merchantNotes = None, set_trackingUrl = None, set_statusHistory = None,
     set_acceptedAt = None, set_preparingAt = None, set_readyAt = None,
     set_deliveredAt = None, set_completedAt = None, set_cancelledAt = None,
     set_cancellationReason = None \<rparr>"

definition keep :: "'a option \<Rightarrow> 'a option \<Rightarrow> 'a option" where
  "keep new old = (case new of None \<Rightarrow> old | Some x \<Rightarrow> Some x)"

definition apply_order_patch :: "OrderPatch \<Rightarrow> Order \<Rightarrow> Order" where
  "apply_order_patch pt ord = ord
     \<lparr> o_status := (case set_status pt of None \<Rightarrow> o_status ord | Some s \<Rightarrow> s),
       o_paymentStatus := (case set_paymentStatus pt of None \<Rightarrow> o_paymentStatus ord | Some s \<Rightarrow> s),
       o_paidAt := keep (set_paidAt pt) (o_paidAt ord),
       o_trackingUrl := keep (set_trackingUrl pt) (o_trackingUrl ord),
       o_statusHistory := (case set_statusHistory pt of None \<Rightarrow> o_statusHistory ord | Some h \<Rightarrow> h),
       o_merchantNotes := keep (set_merchantNotes pt) (o_merchantNotes ord),
       o_acceptedAt := keep (set_acceptedAt pt) (o_acceptedAt ord),
       o_preparingAt := keep (set_preparingAt pt) (o_preparingAt ord),
       o_readyAt := keep (set_readyAt pt) (o_readyAt ord),
       o_deliveredAt := keep (set_deliveredAt pt) (o_deliveredAt ord),
       o_completedAt := keep (set_completedAt pt) (o_completedAt ord),
       o_cancelledAt := keep (set_cancelledAt pt) (o_cancelledAt ord),
       o_cancellationReason := keep (set_cancellationReason pt) (o_cancellationReason ord) \<rparr>"

text \<open>
  The payment update of \<open>verifyPayment\<close> writes \<open>verifiedAt: null\<close> on a failed
  verification, so that column's patch distinguishes "not named" from "set to null".
\<close>

record PaymentPatch =
  set_pay_status :: "PaymentStatus option"
  set_pay_verifiedAt :: "nat option option"
  set_pay_webhookReceived :: "bool option"
  set_pay_webhookVerified :: "bool option"
  set_pay_webhookPayload :: "PaystackData option"

definition apply_payment_patch :: "PaymentPatch \<Rightarrow> Payment \<Rightarrow> Payment" where
  "apply_payment_patch pt pm = pm
     \<lparr> pay_status := (case set_pay_status pt of None \<Rightarrow> pay_status pm | Some s \<Rightarrow> s),
       pay_verifiedAt := (case set_pay_verifiedAt pt of None \<Rightarrow> pay_verifiedAt pm | Some t \<Rightarrow> t),
       pay_webhookReceived := (case set_pay_webhookReceived pt of None \<Rightarrow> pay_webhookReceived pm | Some b \<Rightarrow> b),
       pay_webhookVerified := (case set_pay_webhookVerified pt of None \<Rightarrow> pay_webhookVerified pm | Some b \<Rightarrow> b),
       pay_webhookPayload := keep (set_pay_webhookPayload pt) (pay_webhookPayload pm) \<rparr>"

text \<open>
  One write of the ORM client. \<open>ProductStockAdjust\<close> and \<open>VariantStockAdjust\<close>
  are \<open>stockQuantity: { increment: n }\<close> (a decrement is a negative amount);
  \<open>ProductOrderCountIncrement\<close> is \<open>orderCount: { increment: n }\<close>.
\<close>

datatype db_op =
    OrderCreate Order
  | OrderUpdate string OrderPatch
  | PaymentUpdate string PaymentPatch
  | ProductStockAdjust string int
  | VariantStockAdjust string int
  | ProductOrderCountIncrement string int

text \<open>
  \<open>update({ where: { id } })\<close> throws when no row has the key; the result
  \<open>None\<close> stands for the thrown error.
\<close>

definition update_row :: "('a \<Rightarrow> bool) \<Rightarrow> ('a \<Rightarrow> 'a) \<Rightarrow> 'a list \<Rightarrow> 'a list option" where
  "update_row P f rows =
     (if list_ex P rows then Some (map (\<lambda>r. if P r then f r else r) rows) else None)"

text \<open>An arithmetic update of a NULL column leaves it NULL.\<close>

definition adjust :: "int \<Rightarrow> int option \<Rightarrow> int option" where
  "adjust d q = map_option (\<lambda>n. n + d) q"

text \<open>
  Column types of the schema. An INTEGER column holds a 32-bit signed value. A
  DECIMAL(10,2) column holds at most eight digits before the point: in pesewas, an
  amount below \<open>10^10\<close> in absolute value. A value outside the range of its column
  is refused with an error.
\<close>

definition int32 :: "int \<Rightarrow> bool" where
  "int32 n = (- 2147483648 \<le> n \<and> n \<le> 2147483647)"

definition decimal_10_2 :: "int \<Rightarrow> bool" where
  "decimal_10_2 x = (- 9999999999 \<le> x \<and> x \<le> 9999999999)"

text \<open>The columns of an \<open>order_items\<close> row and of an \<open>orders\<close> row that hold numbers.\<close>

definition item_fits :: "OrderItem \<Rightarrow> bool" where
  "item_fits it =
     (decimal_10_2 (oi_price it) \<and> int32 (oi_quantity it) \<and> decimal_10_2 (oi_subtotal it))"

definition order_fits :: "Order \<Rightarrow> bool" where
  "order_fits ord =
     (decimal_10_2 (o_subtotal ord) \<and> decimal_10_2 (o_deliveryFee ord) \<and>
      decimal_10_2 (o_tax ord) \<and> decimal_10_2 (o_discount ord) \<and>
      decimal_10_2 (o_total ord) \<and> list_all item_fits (o_items ord))"

text \<open>
  Constraints of the schema a new order row is checked against: the primary key
  and the unique order number, the store and the product of each item, the
  variant of each item that names one (foreign keys), and the ranges of its columns.
\<close>

definition item_refs_ok :: "DB \<Rightarrow> OrderItem \<Rightarrow> bool" where
  "item_refs_ok db it =
     (list_ex (\<lambda>p. p_id p = oi_productId it) (products db) \<and>
      (case oi_variantId it of None \<Rightarrow> True
       | Some vid \<Rightarrow> list_ex (\<lambda>v. v_id v = vid) (variants db)))"

definition order_insertable :: "DB \<Rightarrow> Order \<Rightarrow> bool" where
  "order_insertable db ord =
     (\<not> list_ex (\<lambda>x. o_id x = o_id ord) (orders db) \<and>
      \<not> list_ex (\<lambda>x. o_orderNumber x = o_orderNumber ord) (orders db) \<and>
      list_ex (\<lambda>s. s_id s = o_storeId ord) (stores db) \<and>
      list_all (item_refs_ok db) (o_items ord) \<and>
      order_fits ord)"

text \<open>
  The arithmetic updates. The order count only grows, and its increment is refused
  when the sum leaves the INTEGER range. A stock counter is written in two places:
  \<open>createOrder\<close> subtracts a quantity that its validation loop has found no larger
  than the counter, and \<open>cancelOrder\<close> adds the quantity of a stored order item back.
  With quantities of at least 1 (the minimum of the request DTO) a creation leaves a
  counter between 0 and its value before, and the cancellation of that order brings it
  back to that value: on these paths the result is in range whenever the stored
  counter was, and the stock adjustment is modelled without a range check. (A
  cancellation that finds the counter raised by another writer to the top of the
  INTEGER range is refused by the database, and runs here.)
\<close>

definition counts_fit :: "string \<Rightarrow> int \<Rightarrow> Product list \<Rightarrow> bool" where
  "counts_fit pid d rows =
     list_all (\<lambda>p. int32 (p_orderCount p + d)) (filter (\<lambda>p. p_id p = pid) rows)"

fun exec_op :: "db_op \<Rightarrow> DB \<Rightarrow> DB option" where
  "exec_op (OrderCreate ord) db =
     (if order_insertable db ord then Some (db\<lparr>orders := orders db @ [ord]\<rparr>) else None)"
| "exec_op (OrderUpdate oid pt) db =
     map_option (\<lambda>rows. db\<lparr>orders := rows\<rparr>)
       (update_row (\<lambda>x. o_id x = oid) (apply_order_patch pt) (orders db))"
| "exec_op (PaymentUpdate pid pt) db =
     map_option (\<lambda>rows. db\<lparr>payments := rows\<rparr>)
       (update_row (\<lambda>x. pay_id x = pid) (apply_payment_patch pt) (payments db))"
| "exec_op (ProductStockAdjust pid d) db =
     map_option (\<lambda>rows. db\<lparr>products := rows\<rparr>)
       (update_row (\<lambda>p. p_id p = pid)
          (\<lambda>p. p\<lparr>p_stockQuantity := adjust d (p_stockQuantity p)\<rparr>) (products db))"
| "exec_op (VariantStockAdjust vid d) db =
     map_option (\<lambda>rows. db\<lparr>variants := rows\<rparr>)
       (update_row (\<lambda>v. v_id v = vid)
          (\<lambda>v. v\<lparr>v_stockQuantity := adjust d (v_stockQuantity v)\<rparr>) (variants db))"
| "exec_op (ProductOrderCountIncrement pid d) db =
     (if counts_fit pid d (products db) then
        map_option (\<lambda>rows. db\<lparr>products := rows\<rparr>)
          (update_row (\<lambda>p. p_id p = pid)
             (\<lambda>p. p\<lparr>p_orderCount := p_orderCount p + d\<rparr>) (products db))
      else None)"

text \<open>
  \<open>$transaction\<close>: the writes run in order; when one throws, none is kept
  (the result \<open>None\<close>, and the caller's database is the one before the call).
\<close>

fun transaction :: "db_op list \<Rightarrow> DB \<Rightarrow> DB option" where
  "transaction [] db = Some db"
| "transaction (w # ws) db =
     (case exec_op w db of None \<Rightarrow> None | Some db' \<Rightarrow> transaction ws db')"

section \<open>OrdersService\<close>

subsection \<open>createOrder\<close>

text \<open>\<open>product.findMany\<close> with \<open>id in productIds\<close>, the store and \<open>isAvailable\<close>.\<close>

definition findProducts :: "DB \<Rightarrow> string list \<Rightarrow> string \<Rightarrow> Product list" where
  "findProducts db productIds sid =
     filter (\<lambda>p. p_id p \<in> set productIds \<and> p_storeId p = sid \<and> p_isAvailable p)
       (products db)"

text \<open>\<open>include: { variants: true }\<close>: the variants of one product.\<close>

definition variantsOf :: "DB \<Rightarrow> Product \<Rightarrow> ProductVariant list" where
  "variantsOf db p = filter (\<lambda>v. v_productId v = p_id p) (variants db)"

text \<open>
  The variant branch of the loop body: price, variant name and stock counter of
  the line. A falsy \<open>variantId\<close> takes the product's own values. In
  \<open>variant.price || product.price\<close> the left side is a decimal object or null, so
  the product's price is taken for a null variant price only.
\<close>

definition resolveVariant ::
  "DB \<Rightarrow> Product \<Rightarrow> CreateOrderItemDto \<Rightarrow> error + (int \<times> string option \<times> int option)" where
  "resolveVariant db product item =
     (if js_truthy (variantId item) then
        (case variantId item of
           None \<Rightarrow> Inr (p_price product, None, p_stockQuantity product)
         | Some vid \<Rightarrow>
            (case find (\<lambda>v. v_id v = vid) (variantsOf db product) of
               None \<Rightarrow> Inl (VariantNotAvailable vid)
             | Some variant \<Rightarrow>
                 if \<not> v_isAvailable variant then Inl (VariantNotAvailable vid)
                 else Inr ((case v_price variant of None \<Rightarrow> p_price product | Some x \<Rightarrow> x),
                           Some (v_name variant), v_stockQuantity variant)))
      else Inr (p_price product, None, p_stockQuantity product))"

text \<open>The stock validation of one line (\<open>product.trackInventory && stockQuantity !== null\<close>).\<close>

definition checkStock :: "Product \<Rightarrow> int option \<Rightarrow> int \<Rightarrow> error option" where
  "checkStock product stockQuantity qty =
     (if p_trackInventory product then
        (case stockQuantity of
           None \<Rightarrow> None
         | Some s \<Rightarrow> if s < qty then Some (InsufficientStock (p_name product) s) else None)
      else None)"

text \<open>One pass of the validation loop: the order item of a line, or the exception it throws.\<close>

definition resolveLine :: "DB \<Rightarrow> Product list \<Rightarrow> CreateOrderItemDto \<Rightarrow> error + OrderItem" where
  "resolveLine db prods item =
     (case find (\<lambda>p. p_id p = productId item) prods of
        None \<Rightarrow> Inl (ProductNotFound (productId item))
      | Some product \<Rightarrow>
         (case resolveVariant db product item of
            Inl e \<Rightarrow> Inl e
          | Inr (price, variantName, stockQuantity) \<Rightarrow>
             (case checkStock product stockQuantity (quantity item) of
                Some e \<Rightarrow> Inl e
              | None \<Rightarrow> Inr \<lparr> oi_productId = productId item,
                         oi_variantId = variantId item,
                         oi_productName = p_name product,
                         oi_variantName = variantName,
                         oi_price = price,
                         oi_quantity = quantity item,
                         oi_subtotal = price * quantity item,
                         oi_snapshotDescription = p_description product,
                         oi_snapshotSku = p_sku product \<rparr>)))"

fun resolveLines :: "DB \<Rightarrow> Product list \<Rightarrow> CreateOrderItemDto list \<Rightarrow> error + OrderItem list" where
  "resolveLines db prods [] = Inr []"
| "resolveLines db prods (item # rest) =
     (case resolveLine db prods item of
        Inl e \<Rightarrow> Inl e
      | Inr oi \<Rightarrow>
         (case resolveLines db prods rest of
            Inl e \<Rightarrow> Inl e
          | Inr ois \<Rightarrow> Inr (oi # ois)))"

text \<open>
  \<open>calculateDeliveryFee\<close>, in pesewas. The city table is an object literal, so
  \<open>cityFees[city]\<close> finds the city's own entry, or a member the object inherits
  from \<open>Object.prototype\<close> (a function, or the prototype itself: truthy, and not a
  number), or nothing. The result \<open>None\<close> is a fee that is not a number.
\<close>

datatype fee_lookup = OwnFee int | Inherited | Missing

definition object_prototype_keys :: "string list" where
  "object_prototype_keys =
     [''constructor'', ''__defineGetter__'', ''__defineSetter__'', ''hasOwnProperty'',
      ''__lookupGetter__'', ''__lookupSetter__'', ''isPrototypeOf'',
      ''propertyIsEnumerable'', ''toString'', ''valueOf'', ''__proto__'',
      ''toLocaleString'']"

definition cityFees :: "string \<Rightarrow> fee_lookup" where
  "cityFees city =
     (if city = ''Accra'' then OwnFee 1500
      else if city = ''Kumasi'' then OwnFee 1500
      else if city = ''Tema'' then OwnFee 2000
      else if city = ''Takoradi'' then OwnFee 2500
      else if city = ''Tamale'' then OwnFee 3000
      else if city = ''Cape Coast'' then OwnFee 2500
      else if city \<in> set object_prototype_keys then Inherited
      else Missing)"

definition calculateDeliveryFee :: "DeliveryOption \<Rightarrow> string option \<Rightarrow> int option" where
  "calculateDeliveryFee opt city =
     (if opt = PICKUP then Some 0
      else if opt = CUSTOMER_ARRANGED then Some 0
      else (case cityFees (case city of None \<Rightarrow> [] | Some c \<Rightarrow> c) of
              OwnFee fee \<Rightarrow> Some fee
            | Inherited \<Rightarrow> None
            | Missing \<Rightarrow> Some 2000))"

text \<open>
  \<open>generateOrderNumber\<close> draws a number and draws again while an order has it.
  The draws are the list given; \<open>None\<close> when every draw of the list is taken
  (the source keeps drawing).
\<close>

fun generateOrderNumber :: "DB \<Rightarrow> string list \<Rightarrow> string option" where
  "generateOrderNumber db [] = None"
| "generateOrderNumber db (n # ns) =
     (if list_ex (\<lambda>x. o_orderNumber x = n) (orders db)
      then generateOrderNumber db ns else Some n)"

text \<open>The writes of the transaction's loop for one line of the request.\<close>

definition stockOps :: "Product list \<Rightarrow> CreateOrderItemDto \<Rightarrow> db_op list" where
  "stockOps prods item =
     (case find (\<lambda>p. p_id p = productId item) prods of
        None \<Rightarrow> []
      | Some product \<Rightarrow>
          if p_trackInventory product then
            (case (if js_truthy (variantId item) then variantId item else None) of
               Some vid \<Rightarrow> [VariantStockAdjust vid (- quantity item)]
             | None \<Rightarrow> [ProductStockAdjust (productId item) (- quantity item)])
          else [])
     @ [ProductOrderCountIncrement (productId item) (quantity item)]"

text \<open>The \<open>data\<close> of \<open>tx.order.create\<close>, for a delivery fee that is a number.\<close>

definition newOrderRow ::
  "CreateOrderDto \<Rightarrow> Env \<Rightarrow> string \<Rightarrow> OrderItem list \<Rightarrow> int \<Rightarrow> Order" where
  "newOrderRow dto env orderNumber orderItems deliveryFee =
     (let subtotal = sum_list (map oi_subtotal orderItems);
          tax = 0;
          discount = 0
      in \<lparr> o_id = newOrderId env,
           o_orderNumber = orderNumber,
           o_storeId = storeId dto,
           o_customerName = customerName dto,
           o_customerPhone = customerPhone dto,
           o_customerEmail = customerEmail dto,
           o_status = PLACED,
           o_subtotal = subtotal,
           o_deliveryFee = deliveryFee,
           o_tax = tax,
           o_discount = discount,
           o_total = subtotal + deliveryFee + tax - discount,
           o_deliveryOption = deliveryOption dto,
           o_deliveryAddress = deliveryAddress dto,
           o_deliveryCity = deliveryCity dto,
           o_paymentMethod = paymentMethod dto,
           o_paymentStatus = PAYMENT_PENDING,
           o_paidAt = None,
           o_trackingUrl = None,
           o_statusHistory =
             [\<lparr> h_status = PLACED, h_timestamp = now env, h_note = ''Order placed'' \<rparr>],
           o_merchantNotes = None,
           o_acceptedAt = None,
           o_preparingAt = None,
           o_readyAt = None,
           o_deliveredAt = None,
           o_completedAt = None,
           o_cancelledAt = None,
           o_cancellationReason = None,
           o_items = orderItems \<rparr>)"

text \<open>The writes of the creation transaction, in the order they are issued.\<close>

definition createOps :: "Product list \<Rightarrow> CreateOrderDto \<Rightarrow> Order \<Rightarrow> db_op list" where
  "createOps prods dto newOrder =
     OrderCreate newOrder # concat (map (stockOps prods) (items dto))"

text \<open>Everything \<open>createOrder\<close> checks before it draws the order number.\<close>

definition validateOrder :: "DB \<Rightarrow> CreateOrderDto \<Rightarrow> error + (Product list \<times> OrderItem list)" where
  "validateOrder db dto =
     (case find (\<lambda>s. s_id s = storeId dto) (stores db) of
        None \<Rightarrow> Inl StoreNotFound
      | Some store \<Rightarrow>
          if s_status store \<noteq> ACTIVE \<or> \<not> s_isPublished store then Inl StoreNotAvailable
          else if deliveryOption dto = MERCHANT_DELIVERY \<and>
                  (\<not> js_truthy (deliveryAddress dto) \<or> \<not> js_truthy (deliveryCity dto))
          then Inl DeliveryAddressRequired
          else
            (let productIds = map productId (items dto);
                 prods = findProducts db productIds (storeId dto)
             in if length prods \<noteq> length productIds then Inl SomeProductsNotAvailable
                else (case resolveLines db prods (items dto) of
                        Inl e \<Rightarrow> Inl e
                      | Inr orderItems \<Rightarrow> Inr (prods, orderItems))))"

text \<open>
  \<open>createOrder\<close>: the outcome (the exception or the created order) and the
  database after the call. \<open>None\<close> when the order number generator does not return.
  A delivery fee that is not a number is refused by the ORM client at
  \<open>tx.order.create\<close>, inside the transaction.
\<close>

definition createOrder :: "DB \<Rightarrow> CreateOrderDto \<Rightarrow> Env \<Rightarrow> ((error + Order) \<times> DB) option" where
  "createOrder db dto env =
     (case validateOrder db dto of
        Inl e \<Rightarrow> Some (Inl e, db)
      | Inr (prods, orderItems) \<Rightarrow>
         (case generateOrderNumber db (orderNumberDraws env) of
            None \<Rightarrow> None
          | Some orderNumber \<Rightarrow>
             (case calculateDeliveryFee (deliveryOption dto) (deliveryCity dto) of
                None \<Rightarrow> Some (Inl PrismaError, db)
              | Some deliveryFee \<Rightarrow>
                 (let newOrder = newOrderRow dto env orderNumber orderItems deliveryFee
                  in case transaction (createOps prods dto newOrder) db of
                       None \<Rightarrow> Some (Inl PrismaError, db)
                     | Some db' \<Rightarrow> Some (Inr newOrder, db')))))"

subsection \<open>getOrderByNumber\<close>

text \<open>
  The public tracking lookup; the controller's \<open>trackOrder\<close> hands over the
  path's order number and the \<open>phone\<close> query parameter as they come.
\<close>

definition getOrderByNumber :: "DB \<Rightarrow> string \<Rightarrow> string option \<Rightarrow> error + Order" where
  "getOrderByNumber db orderNumber phone =
     (case find (\<lambda>x. o_orderNumber x = orderNumber) (orders db) of
        None \<Rightarrow> Inl OrderNotFound
      | Some ord \<Rightarrow>
          if js_truthy phone \<and> Some (o_customerPhone ord) \<noteq> phone
          then Inl InvalidOrderOrPhone
          else Inr ord)"

definition trackOrder :: "DB \<Rightarrow> string \<Rightarrow> string option \<Rightarrow> error + Order" where
  "trackOrder db orderNumber phone = getOrderByNumber db orderNumber phone"

subsection \<open>updateOrderStatus\<close>

fun validTransitions :: "OrderStatus \<Rightarrow> OrderStatus list" where
  "validTransitions PLACED = [ACCEPTED, CANCELLED]"
| "validTransitions ACCEPTED = [PREPARING, CANCELLED]"
| "validTransitions PREPARING = [READY_FOR_PICKUP, OUT_FOR_DELIVERY, CANCELLED]"
| "validTransitions READY_FOR_PICKUP = [COMPLETED, CANCELLED]"
| "validTransitions OUT_FOR_DELIVERY = [DELIVERED, FAILED]"
| "validTransitions DELIVERED = [COMPLETED, DISPUTED]"
| "validTransitions COMPLETED = [DISPUTED]"
| "validTransitions CANCELLED = []"
| "validTransitions FAILED = [PLACED]"
| "validTransitions DISPUTED = []"

text \<open>
  \<open>validateStatusTransition\<close>: the exception it throws, if any. The DTO's status
  is optional, and an absent status is in no row of the table.
\<close>

definition validateStatusTransition :: "OrderStatus \<Rightarrow> OrderStatus option \<Rightarrow> error option" where
  "validateStatusTransition currentStatus newStatus =
     (case newStatus of
        None \<Rightarrow> Some (InvalidTransition currentStatus None)
      | Some n \<Rightarrow>
          if n \<in> set (validTransitions currentStatus) then None
          else Some (InvalidTransition currentStatus (Some n)))"

fun status_name :: "OrderStatus \<Rightarrow> string" where
  "status_name PLACED = ''PLACED''"
| "status_name ACCEPTED = ''ACCEPTED''"
| "status_name PREPARING = ''PREPARING''"
| "status_name READY_FOR_PICKUP = ''READY_FOR_PICKUP''"
| "status_name OUT_FOR_DELIVERY = ''OUT_FOR_DELIVERY''"
| "status_name DELIVERED = ''DELIVERED''"
| "status_name COMPLETED = ''COMPLETED''"
| "status_name CANCELLED = ''CANCELLED''"
| "status_name FAILED = ''FAILED''"
| "status_name DISPUTED = ''DISPUTED''"

text \<open>
  The merchant id of the order's store (\<open>order.store.merchantId\<close>); the
  foreign key of the schema gives every order its store row.
\<close>

definition storeMerchantId :: "DB \<Rightarrow> Order \<Rightarrow> string option" where
  "storeMerchantId db ord =
     map_option s_merchantId (find (\<lambda>s. s_id s = o_storeId ord) (stores db))"

text \<open>\<open>!merchant || order.store.merchantId !== merchant.id\<close> for the merchant of a user id.\<close>

definition notOwner :: "DB \<Rightarrow> Order \<Rightarrow> string \<Rightarrow> bool" where
  "notOwner db ord userId =
     (case find (\<lambda>m. m_userId m = userId) (merchants db) of
        None \<Rightarrow> True
      | Some merchant \<Rightarrow> storeMerchantId db ord \<noteq> Some (m_id merchant))"

definition historyAfterUpdate :: "Order \<Rightarrow> UpdateOrderStatusDto \<Rightarrow> nat \<Rightarrow> StatusEntry list" where
  "historyAfterUpdate ord dto t =
     (case us_status dto of
        None \<Rightarrow> o_statusHistory ord
      | Some st \<Rightarrow> o_statusHistory ord @
          [\<lparr> h_status = st, h_timestamp = t,
             h_note = (if js_truthy (us_merchantNotes dto)
                       then (case us_merchantNotes dto of Some n \<Rightarrow> n | None \<Rightarrow> [])
                       else ''Status updated to '' @ status_name st) \<rparr>])"

definition stamp :: "OrderStatus option \<Rightarrow> OrderStatus \<Rightarrow> nat \<Rightarrow> nat option" where
  "stamp requested st t = (if requested = Some st then Some t else None)"

definition statusPatch :: "Order \<Rightarrow> UpdateOrderStatusDto \<Rightarrow> nat \<Rightarrow> OrderPatch" where
  "statusPatch ord dto t = no_patch
     \<lparr> set_status := us_status dto,
       set_merchantNotes := us_merchantNotes dto,
       set_trackingUrl := us_trackingUrl dto,
       set_statusHistory := Some (historyAfterUpdate ord dto t),
       set_acceptedAt := stamp (us_status dto) ACCEPTED t,
       set_preparingAt := stamp (us_status dto) PREPARING t,
       set_readyAt := stamp (us_status dto) READY_FOR_PICKUP t,
       set_deliveredAt := stamp (us_status dto) DELIVERED t,
       set_completedAt := stamp (us_status dto) COMPLETED t,
       set_cancelledAt := stamp (us_status dto) CANCELLED t \<rparr>"

definition updateOrderStatus ::
  "DB \<Rightarrow> string \<Rightarrow> string \<Rightarrow> UpdateOrderStatusDto \<Rightarrow> Env \<Rightarrow> (error + Order) \<times> DB" where
  "updateOrderStatus db userId orderId dto env =
     (case find (\<lambda>x. o_id x = orderId) (orders db) of
        None \<Rightarrow> (Inl OrderNotFound, db)
      | Some ord \<Rightarrow>
          if notOwner db ord userId then (Inl NotOrderOwner, db)
          else
            (case validateStatusTransition (o_status ord) (us_status dto) of
               Some e \<Rightarrow> (Inl e, db)
             | None \<Rightarrow>
                (case exec_op (OrderUpdate orderId (statusPatch ord dto (now env))) db of
                   None \<Rightarrow> (Inl PrismaError, db)
                 | Some db' \<Rightarrow>
                    (Inr (apply_order_patch (statusPatch ord dto (now env)) ord), db'))))"

subsection \<open>cancelOrder\<close>

text \<open>
  The stock restore of one order item. \<open>item.product\<close> is the product row the
  item's foreign key points to, read before the transaction.
\<close>

definition restoreOps :: "DB \<Rightarrow> OrderItem \<Rightarrow> db_op list" where
  "restoreOps db it =
     (case find (\<lambda>p. p_id p = oi_productId it) (products db) of
        None \<Rightarrow> []
      | Some product \<Rightarrow>
          if p_trackInventory product then
            (case (if js_truthy (oi_variantId it) then oi_variantId it else None) of
               Some vid \<Rightarrow> [VariantStockAdjust vid (oi_quantity it)]
             | None \<Rightarrow> [ProductStockAdjust (oi_productId it) (oi_quantity it)])
          else [])"

definition cancelPatch :: "Order \<Rightarrow> CancelOrderDto \<Rightarrow> nat \<Rightarrow> OrderPatch" where
  "cancelPatch ord dto t = no_patch
     \<lparr> set_status := Some CANCELLED,
       set_cancelledAt := Some t,
       set_cancellationReason := cancellationReason dto,
       set_statusHistory := Some (o_statusHistory ord @
          [\<lparr> h_status = CANCELLED, h_timestamp = t,
             h_note = (if js_truthy (cancellationReason dto)
                       then (case cancellationReason dto of Some r \<Rightarrow> r | None \<Rightarrow> [])
                       else ''Order cancelled'') \<rparr>]) \<rparr>"

definition cancelOps :: "DB \<Rightarrow> Order \<Rightarrow> CancelOrderDto \<Rightarrow> nat \<Rightarrow> db_op list" where
  "cancelOps db ord dto t =
     OrderUpdate (o_id ord) (cancelPatch ord dto t) # concat (map (restoreOps db) (o_items ord))"

text \<open>
  \<open>cancelOrder\<close>; the controller's route is public and hands over the caller's
  user id when the request carries one. The result on success is the order number.
\<close>

definition cancelOrder ::
  "DB \<Rightarrow> string \<Rightarrow> CancelOrderDto \<Rightarrow> string option \<Rightarrow> Env \<Rightarrow> (error + string) \<times> DB" where
  "cancelOrder db orderId dto userId env =
     (case find (\<lambda>x. o_id x = orderId) (orders db) of
        None \<Rightarrow> (Inl OrderNotFound, db)
      | Some ord \<Rightarrow>
          if o_status ord \<in> set [DELIVERED, COMPLETED, CANCELLED]
          then (Inl (CannotCancel (o_status ord)), db)
          else if o_status ord \<noteq> PLACED \<and> js_truthy userId \<and>
                  notOwner db ord (case userId of Some u \<Rightarrow> u | None \<Rightarrow> [])
          then (Inl OnlyMerchantCanCancel, db)
          else
            (case transaction (cancelOps db ord dto (now env)) db of
               None \<Rightarrow> (Inl PrismaError, db)
             | Some db' \<Rightarrow> (Inr (o_orderNumber ord), db')))"

section \<open>PaymentsService\<close>

text \<open>
  The payment processor client: the secret key, the HMAC-SHA-512 hex digest of the
  platform's crypto library, and the answer of the verify-by-reference endpoint
  (\<open>Inl\<close> when the call throws).
\<close>

record Paystack =
  secretKey :: string
  hmac_sha512_hex :: "string \<Rightarrow> string \<Rightarrow> string"
  verifyTransaction :: "string \<Rightarrow> error + PaystackData"

definition verifyWebhookSignature :: "Paystack \<Rightarrow> string \<Rightarrow> string \<Rightarrow> bool" where
  "verifyWebhookSignature ps signature body =
     (hmac_sha512_hex ps (secretKey ps) body = signature)"

record WebhookEvent =
  ev_event :: string
  ev_data :: PaystackData

definition findPayment :: "DB \<Rightarrow> string \<Rightarrow> Payment option" where
  "findPayment db reference = find (\<lambda>pm. pay_reference pm = reference) (payments db)"

definition paidPatch :: "nat \<Rightarrow> OrderPatch" where
  "paidPatch t = no_patch
     \<lparr> set_paymentStatus := Some PAYMENT_COMPLETED,
       set_paidAt := Some t,
       set_status := Some PREPARING \<rparr>"

subsection \<open>verifyPayment\<close>

definition verifyPatch :: "PaystackData \<Rightarrow> nat \<Rightarrow> PaymentPatch" where
  "verifyPatch paystackData t =
     \<lparr> set_pay_status =
         Some (if pd_status paystackData = ''success'' then PAYMENT_COMPLETED else PAYMENT_FAILED),
       set_pay_verifiedAt =
         Some (if pd_status paystackData = ''success'' then Some t else None),
       set_pay_webhookReceived = None,
       set_pay_webhookVerified = Some True,
       set_pay_webhookPayload = Some paystackData \<rparr>"

text \<open>
  \<open>verifyPayment\<close>: two writes, one after the other and not in a transaction.
  The result on success is the updated payment and the \<open>verified\<close> flag.
\<close>

definition verifyPayment ::
  "Paystack \<Rightarrow> DB \<Rightarrow> string \<Rightarrow> Env \<Rightarrow> (error + (Payment \<times> bool)) \<times> DB" where
  "verifyPayment ps db reference env =
     (case verifyTransaction ps reference of
        Inl e \<Rightarrow> (Inl e, db)
      | Inr paystackData \<Rightarrow>
         (case findPayment db reference of
            None \<Rightarrow> (Inl PaymentNotFound, db)
          | Some payment \<Rightarrow>
             (case exec_op (PaymentUpdate (pay_id payment) (verifyPatch paystackData (now env))) db of
                None \<Rightarrow> (Inl PrismaError, db)
              | Some db1 \<Rightarrow>
                 (let updatedPayment = apply_payment_patch (verifyPatch paystackData (now env)) payment
                  in if pd_status paystackData = ''success'' then
                       (case exec_op (OrderUpdate (pay_orderId payment) (paidPatch (now env))) db1 of
                          None \<Rightarrow> (Inl PrismaError, db1)
                        | Some db2 \<Rightarrow> (Inr (updatedPayment, True), db2))
                     else (Inr (updatedPayment, False), db1)))))"

subsection \<open>handleWebhook\<close>

definition chargePatch :: "PaystackData \<Rightarrow> nat \<Rightarrow> PaymentPatch" where
  "chargePatch data t =
     \<lparr> set_pay_status = Some PAYMENT_COMPLETED,
       set_pay_verifiedAt = Some (Some t),
       set_pay_webhookReceived = Some True,
       set_pay_webhookVerified = None,
       set_pay_webhookPayload = Some data \<rparr>"

text \<open>\<open>handleChargeSuccess\<close>: the exception of a failed write, if any, and the database after.\<close>

definition handleChargeSuccess :: "DB \<Rightarrow> PaystackData \<Rightarrow> Env \<Rightarrow> error option \<times> DB" where
  "handleChargeSuccess db data env =
     (case findPayment db (pd_reference data) of
        None \<Rightarrow> (None, db)
      | Some payment \<Rightarrow>
          if pay_status payment = PAYMENT_PENDING then
            (case exec_op (PaymentUpdate (pay_id payment) (chargePatch data (now env))) db of
               None \<Rightarrow> (Some PrismaError, db)
             | Some db1 \<Rightarrow>
                (case exec_op (OrderUpdate (pay_orderId payment) (paidPatch (now env))) db1 of
                   None \<Rightarrow> (Some PrismaError, db1)
                 | Some db2 \<Rightarrow> (None, db2)))
          else (None, db))"

text \<open>
  \<open>handleWebhook\<close>. \<open>parse\<close> is \<open>JSON.parse\<close> followed by the reads of
  \<open>event.event\<close> and \<open>event.data\<close> (\<open>None\<close> when it throws). The transfer
  events and the unhandled ones are logged only.
\<close>

definition handleWebhook ::
  "Paystack \<Rightarrow> (string \<Rightarrow> WebhookEvent option) \<Rightarrow> DB \<Rightarrow> string \<Rightarrow> string \<Rightarrow> Env
     \<Rightarrow> (error + string) \<times> DB" where
  "handleWebhook ps parse db signature body env =
     (if \<not> verifyWebhookSignature ps signature body then (Inl InvalidWebhookSignature, db)
      else
        (case parse body of
           None \<Rightarrow> (Inl JsonSyntaxError, db)
         | Some event \<Rightarrow>
             if ev_event event = ''charge.success'' then
               (case handleChargeSuccess db (ev_data event) env of
                  (Some e, db') \<Rightarrow> (Inl e, db')
                | (None, db') \<Rightarrow> (Inr ''success'', db'))
             else (Inr ''success'', db)))"

section \<open>Reconciliation, one awaited call at a time\<close>

text \<open>
  Both reconciliation functions are \<open>async\<close>: between two awaited database calls
  another request may run. A call state is a call of \<open>handleChargeSuccess\<close> or of
  \<open>verifyPayment\<close> stopped before its next awaited call, with what it has read
  so far; \<open>call_step\<close> runs that call and the synchronous code after it.
\<close>

datatype call_state =
    WebhookStart PaystackData
  | WebhookFound Payment PaystackData
  | WebhookUpdated Payment
  | VerifyStart string
  | VerifyAnswered string PaystackData
  | VerifyFound Payment PaystackData
  | VerifyUpdated Payment
  | Finished "error option"

fun call_step :: "Paystack \<Rightarrow> Env \<Rightarrow> call_state \<Rightarrow> DB \<Rightarrow> call_state \<times> DB" where
  "call_step ps env (WebhookStart data) db =
     (case findPayment db (pd_reference data) of
        None \<Rightarrow> (Finished None, db)
      | Some payment \<Rightarrow>
          if pay_status payment = PAYMENT_PENDING then (WebhookFound payment data, db)
          else (Finished None, db))"
| "call_step ps env (WebhookFound payment data) db =
     (case exec_op (PaymentUpdate (pay_id payment) (chargePatch data (now env))) db of
        None \<Rightarrow> (Finished (Some PrismaError), db)
      | Some db1 \<Rightarrow> (WebhookUpdated payment, db1))"
| "call_step ps env (WebhookUpdated payment) db =
     (case exec_op (OrderUpdate (pay_orderId payment) (paidPatch (now env))) db of
        None \<Rightarrow> (Finished (Some PrismaError), db)
      | Some db2 \<Rightarrow> (Finished None, db2))"
| "call_step ps env (VerifyStart reference) db =
     (case verifyTransaction ps reference of
        Inl e \<Rightarrow> (Finished (Some e), db)
      | Inr paystackData \<Rightarrow> (VerifyAnswered reference paystackData, db))"
| "call_step ps env (VerifyAnswered reference paystackData) db =
     (case findPayment db reference of
        None \<Rightarrow> (Finished (Some PaymentNotFound), db)
      | Some payment \<Rightarrow> (VerifyFound payment paystackData, db))"
| "call_step ps env (VerifyFound payment paystackData) db =
     (case exec_op (PaymentUpdate (pay_id payment) (verifyPatch paystackData (now env))) db of
        None \<Rightarrow> (Finished (Some PrismaError), db)
      | Some db1 \<Rightarrow>
          if pd_status paystackData = ''success'' then (VerifyUpdated payment, db1)
          else (Finished None, db1))"
| "call_step ps env (VerifyUpdated payment) db =
     (case exec_op (OrderUpdate (pay_orderId payment) (paidPatch (now env))) db of
        None \<Rightarrow> (Finished (Some PrismaError), db)
      | Some db2 \<Rightarrow> (Finished None, db2))"
| "call_step ps env (Finished r) db = (Finished r, db)"

text \<open>A call run alone: none takes more than four awaited calls.\<close>

definition run_call :: "Paystack \<Rightarrow> Env \<Rightarrow> call_state \<Rightarrow> DB \<Rightarrow> call_state \<times> DB" where
  "run_call ps env t db =
     (let (t1, db1) = call_step ps env t db;
          (t2, db2) = call_step ps env t1 db1;
          (t3, db3) = call_step ps env t2 db2
      in call_step ps env t3 db3)"

text \<open>
  Two requests in flight. The schedule says whose awaited call runs next:
  \<open>True\<close> for the webhook delivery, \<open>False\<close> for the poll.
\<close>

fun interleave ::
  "Paystack \<Rightarrow> Env \<Rightarrow> Env \<Rightarrow> bool list \<Rightarrow> call_state \<times> call_state \<times> DB \<Rightarrow> call_state \<times> call_state \<times> DB" where
  "interleave ps envW envV [] st = st"
| "interleave ps envW envV (True # sched) (tw, tv, db) =
     (case call_step ps envW tw db of (tw', db') \<Rightarrow> interleave ps envW envV sched (tw', tv, db'))"
| "interleave ps envW envV (False # sched) (tw, tv, db) =
     (case call_step ps envV tv db of (tv', db') \<Rightarrow> interleave ps envW envV sched (tw, tv', db'))"

text \<open>The payment a call has read and still holds, if any.\<close>

fun observed :: "call_state \<Rightarrow> Payment option" where
  "observed (WebhookFound payment data) = Some payment"
| "observed (VerifyFound payment data) = Some payment"
| "observed _ = None"

section \<open>Statements of the specification\<close>

text \<open>The transition table of section 4.1 of the specification, as its list of edges.\<close>

definition spec_transition_table :: "(OrderStatus \<times> OrderStatus) list" where
  "spec_transition_table =
     [(PLACED, ACCEPTED), (PLACED, CANCELLED),
      (ACCEPTED, PREPARING), (ACCEPTED, CANCELLED),
      (PREPARING, READY_FOR_PICKUP), (PREPARING, OUT_FOR_DELIVERY), (PREPARING, CANCELLED),
      (READY_FOR_PICKUP, COMPLETED), (READY_FOR_PICKUP, CANCELLED),
      (OUT_FOR_DELIVERY, DELIVERED), (OUT_FOR_DELIVERY, FAILED),
      (DELIVERED, COMPLETED), (DELIVERED, DISPUTED),
      (COMPLETED, DISPUTED),
      (FAILED, PLACED)]"

definition spec_edge :: "OrderStatus \<Rightarrow> OrderStatus \<Rightarrow> bool" where
  "spec_edge cur nxt = ((cur, nxt) \<in> set spec_transition_table)"

text \<open>A payment row without the two flags that record which path verified it.\<close>

definition forget_flags :: "Payment \<Rightarrow> Payment" where
  "forget_flags pm = pm\<lparr> pay_webhookReceived := False, pay_webhookVerified := False \<rparr>"

definition forget_flags_db :: "DB \<Rightarrow> DB" where
  "forget_flags_db db = db\<lparr> payments := map forget_flags (payments db) \<rparr>"

text \<open>The stock counters of the catalog: every product and variant key with its counter.\<close>

definition stock_levels :: "DB \<Rightarrow> (string \<times> int option) list \<times> (string \<times> int option) list" where
  "stock_levels db =
     (map (\<lambda>p. (p_id p, p_stockQuantity p)) (products db),
      map (\<lambda>v. (v_id v, v_stockQuantity v)) (variants db))"

section \<open>A small shop\<close>

definition kente :: Product where
  "kente = \<lparr> p_id = ''p1'', p_storeId = ''s1'', p_name = ''Kente cloth'',
     p_description = None, p_sku = Some ''K-1'', p_price = 1000, p_trackInventory = True,
     p_stockQuantity = Some 5, p_isAvailable = True, p_orderCount = 0 \<rparr>"

definition shea :: Product where
  "shea = \<lparr> p_id = ''p2'', p_storeId = ''s1'', p_name = ''Shea butter'',
     p_description = None, p_sku = None, p_price = 500, p_trackInventory = True,
     p_stockQuantity = None, p_isAvailable = True, p_orderCount = 0 \<rparr>"

definition kente_large :: ProductVariant where
  "kente_large = \<lparr> v_id = ''v1'', v_productId = ''p1'', v_name = ''Large'',
     v_price = Some 1500, v_stockQuantity = Some 3, v_isAvailable = True \<rparr>"

definition shop_db :: DB where
  "shop_db = \<lparr> products = [kente, shea], variants = [kente_large],
     stores = [\<lparr> s_id = ''s1'', s_merchantId = ''m1'', s_status = ACTIVE, s_isPublished = True \<rparr>],
     merchants = [\<lparr> m_id = ''m1'', m_userId = ''u1'' \<rparr>],
     orders = [], payments = [] \<rparr>"

definition line :: "string \<Rightarrow> string option \<Rightarrow> int \<Rightarrow> CreateOrderItemDto" where
  "line pid vid n = \<lparr> productId = pid, variantId = vid, quantity = n \<rparr>"

definition pickup_order :: "CreateOrderItemDto list \<Rightarrow> CreateOrderDto" where
  "pickup_order ls = \<lparr> storeId = ''s1'', customerName = ''Ama Mensah'',
     customerPhone = ''0244123456'', customerEmail = None, items = ls,
     deliveryOption = PICKUP, deliveryAddress = None, deliveryCity = None,
     paymentMethod = CASH_ON_DELIVERY \<rparr>"

definition at_time :: "nat \<Rightarrow> Env" where
  "at_time t = \<lparr> now = t, newOrderId = ''o1'', orderNumberDraws = [''ORD-00000001001''] \<rparr>"

text \<open>
  The shop after the order for two units of the tracked product, with that order
  in a given status and the given payment rows.
\<close>

definition placed_db :: DB where
  "placed_db =
     (case createOrder shop_db (pickup_order [line ''p1'' None 2]) (at_time 10) of
        Some (r, db) \<Rightarrow> db
      | None \<Rightarrow> shop_db)"

definition shop_with :: "OrderStatus \<Rightarrow> Payment list \<Rightarrow> DB" where
  "shop_with st pms =
     placed_db\<lparr> orders := map (\<lambda>x. x\<lparr> o_status := st \<rparr>) (orders placed_db), payments := pms \<rparr>"

text \<open>That order's row, in a given status.\<close>

definition kente_order :: "OrderStatus \<Rightarrow> Order" where
  "kente_order st =
     (newOrderRow (pickup_order [line ''p1'' None 2]) (at_time 10) ''ORD-00000001001''
        [\<lparr> oi_productId = ''p1'', oi_variantId = None, oi_productName = ''Kente cloth'',
           oi_variantName = None, oi_price = 1000, oi_quantity = 2, oi_subtotal = 2000,
           oi_snapshotDescription = None, oi_snapshotSku = Some ''K-1'' \<rparr>] 0)
     \<lparr> o_status := st \<rparr>"

definition kente_payment :: "PaymentStatus \<Rightarrow> Payment" where
  "kente_payment st = \<lparr> pay_id = ''pay1'', pay_orderId = ''o1'', pay_amount = 2000,
     pay_reference = ''ref1'', pay_status = st, pay_verifiedAt = None,
     pay_webhookReceived = False, pay_webhookVerified = False, pay_webhookPayload = None \<rparr>"

definition charge_ok :: PaystackData where
  "charge_ok = \<lparr> pd_reference = ''ref1'', pd_status = ''success'' \<rparr>"

definition no_reason :: CancelOrderDto where
  "no_reason = \<lparr> cancellationReason = None \<rparr>"

definition request_status :: "OrderStatus \<Rightarrow> UpdateOrderStatusDto" where
  "request_status st = \<lparr> us_status = Some st, us_merchantNotes = None, us_trackingUrl = None \<rparr>"

text \<open>
  A payment's life: initialised and pending; then confirmed by the webhook at time 15;
  then the merchant moves the order to READY_FOR_PICKUP at time 17.
\<close>

definition pending_db :: DB where
  "pending_db = shop_with PLACED [kente_payment PAYMENT_PENDING]"

definition paid_db :: DB where
  "paid_db = snd (handleChargeSuccess pending_db charge_ok (at_time 15))"

definition ready_db :: DB where
  "ready_db =
     snd (updateOrderStatus paid_db ''u1'' ''o1'' (request_status READY_FOR_PICKUP) (at_time 17))"

text \<open>What the examples read off a payment row and an order row.\<close>

definition payment_view :: "Payment \<Rightarrow> PaymentStatus \<times> nat option \<times> bool \<times> bool" where
  "payment_view pm =
     (pay_status pm, pay_verifiedAt pm, pay_webhookReceived pm, pay_webhookVerified pm)"

definition order_view :: "Order \<Rightarrow> OrderStatus \<times> PaymentStatus \<times> nat option" where
  "order_view x = (o_status x, o_paymentStatus x, o_paidAt x)"

text \<open>A processor that answers every verification with one status; a stand-in digest.\<close>

definition processor :: "string \<Rightarrow> Paystack" where
  "processor st = \<lparr> secretKey = ''sk_test'',
     hmac_sha512_hex = (\<lambda>key body. key @ body),
     verifyTransaction = (\<lambda>reference. Inr \<lparr> pd_reference = reference, pd_status = st \<rparr>) \<rparr>"

section \<open>Reading a list of writes\<close>

text \<open>What one write does to a product row and to a variant row.\<close>

fun on_product :: "db_op \<Rightarrow> Product \<Rightarrow> Product" where
  "on_product (ProductStockAdjust pid d) p =
     (if p_id p = pid then p\<lparr>p_stockQuantity := adjust d (p_stockQuantity p)\<rparr> else p)"
| "on_product (ProductOrderCountIncrement pid d) p =
     (if p_id p = pid then p\<lparr>p_orderCount := p_orderCount p + d\<rparr> else p)"
| "on_product w p = p"

fun on_variant :: "db_op \<Rightarrow> ProductVariant \<Rightarrow> ProductVariant" where
  "on_variant (VariantStockAdjust vid d) v =
     (if v_id v = vid then v\<lparr>v_stockQuantity := adjust d (v_stockQuantity v)\<rparr> else v)"
| "on_variant w v = v"








definition executable :: "DB \<Rightarrow> db_op \<Rightarrow> bool" where
  "executable db w = (exec_op w db \<noteq> None)"



text \<open>
  The precondition failures of \<open>createOrder\<close> in the words of the specification:
  the store is missing, or not active or not published; a merchant delivery has no
  address or no city; the product of a line is missing from the store or unavailable,
  or its chosen variant is missing under the product or unavailable; or a line of a
  product that tracks inventory asks for more than its stock counter (the variant's
  when a variant is chosen, else the product's).
\<close>

definition spec_orderable_product :: "DB \<Rightarrow> string \<Rightarrow> string \<Rightarrow> Product option" where
  "spec_orderable_product db sid pid =
     find (\<lambda>p. p_id p = pid \<and> p_storeId p = sid \<and> p_isAvailable p) (products db)"

definition spec_chosen_variant :: "DB \<Rightarrow> string \<Rightarrow> string \<Rightarrow> ProductVariant option" where
  "spec_chosen_variant db pid vid =
     find (\<lambda>v. v_id v = vid \<and> v_productId v = pid) (variants db)"

definition spec_line_unavailable :: "DB \<Rightarrow> string \<Rightarrow> CreateOrderItemDto \<Rightarrow> bool" where
  "spec_line_unavailable db sid item =
     (case spec_orderable_product db sid (productId item) of
        None \<Rightarrow> True
      | Some product \<Rightarrow>
         (case variantId item of
            None \<Rightarrow> False
          | Some vid \<Rightarrow>
              vid \<noteq> [] \<and>
              (case spec_chosen_variant db (productId item) vid of
                 None \<Rightarrow> True
               | Some variant \<Rightarrow> \<not> v_isAvailable variant)))"

definition spec_effective_stock :: "DB \<Rightarrow> Product \<Rightarrow> CreateOrderItemDto \<Rightarrow> int option" where
  "spec_effective_stock db product item =
     (case variantId item of
        None \<Rightarrow> p_stockQuantity product
      | Some vid \<Rightarrow>
          if vid = [] then p_stockQuantity product
          else (case spec_chosen_variant db (p_id product) vid of
                  None \<Rightarrow> None
                | Some variant \<Rightarrow> v_stockQuantity variant))"

definition spec_line_short :: "DB \<Rightarrow> string \<Rightarrow> CreateOrderItemDto \<Rightarrow> bool" where
  "spec_line_short db sid item =
     (case spec_orderable_product db sid (productId item) of
        None \<Rightarrow> False
      | Some product \<Rightarrow>
          p_trackInventory product \<and>
          (case spec_effective_stock db product item of
             None \<Rightarrow> False
           | Some s \<Rightarrow> s < quantity item))"

definition spec_precondition_failure :: "DB \<Rightarrow> CreateOrderDto \<Rightarrow> bool" where
  "spec_precondition_failure db dto =
     ((case find (\<lambda>s. s_id s = storeId dto) (stores db) of
         None \<Rightarrow> True
       | Some store \<Rightarrow> s_status store \<noteq> ACTIVE \<or> \<not> s_isPublished store) \<or>
      (deliveryOption dto = MERCHANT_DELIVERY \<and>
         (\<not> js_truthy (deliveryAddress dto) \<or> \<not> js_truthy (deliveryCity dto))) \<or>
      list_ex (spec_line_unavailable db (storeId dto)) (items dto) \<or>
      list_ex (spec_line_short db (storeId dto)) (items dto))"

section \<open>Lemmas on lookups and writes\<close>

lemma find_Some_list_ex: "find P xs = Some x \<Longrightarrow> list_ex P xs"
  by (induction xs) (auto split: if_splits)

lemma find_Some_holds: "find P xs = Some x \<Longrightarrow> P x"
  by (induction xs) (auto split: if_splits)

lemma find_map_same:
  "(\<And>y. P (g y) = P y) \<Longrightarrow> find P (map g xs) = map_option g (find P xs)"
  by (induction xs) auto

lemma find_update_row:
  "find P xs = Some x \<Longrightarrow> (\<And>y. P (f y) = P y) \<Longrightarrow>
   find P (map (\<lambda>r. if P r then f r else r) xs) = Some (f x)"
  by (induction xs) (auto split: if_splits)

lemma o_id_apply_order_patch [simp]: "o_id (apply_order_patch pt x) = o_id x"
  by (simp add: apply_order_patch_def)

lemma pay_reference_patch [simp]: "pay_reference (apply_payment_patch pt pm) = pay_reference pm"
  by (simp add: apply_payment_patch_def)

lemma pay_id_patch [simp]: "pay_id (apply_payment_patch pt pm) = pay_id pm"
  by (simp add: apply_payment_patch_def)

lemma exec_OrderUpdate_found:
  assumes "find (\<lambda>x. o_id x = oid) (orders db) = Some ord"
  shows "exec_op (OrderUpdate oid pt) db =
           Some (db\<lparr>orders := map (\<lambda>r. if o_id r = oid then apply_order_patch pt r else r) (orders db)\<rparr>)"
  using find_Some_list_ex [OF assms] by (simp add: update_row_def)

lemma exec_OrderUpdate_ignores_payments:
  "exec_op (OrderUpdate oid pt) (db\<lparr>payments := pms\<rparr>) =
   map_option (\<lambda>d. d\<lparr>payments := pms\<rparr>) (exec_op (OrderUpdate oid pt) db)"
  by (simp add: update_row_def)

lemma exec_PaymentUpdate_found:
  assumes "findPayment db reference = Some payment"
  shows "exec_op (PaymentUpdate (pay_id payment) pt) db =
           Some (db\<lparr>payments :=
             map (\<lambda>r. if pay_id r = pay_id payment then apply_payment_patch pt r else r) (payments db)\<rparr>)"
proof -
  have "payment \<in> set (payments db)"
    using assms unfolding findPayment_def by (metis find_Some_iff nth_mem)
  then have "list_ex (\<lambda>x. pay_id x = pay_id payment) (payments db)"
    by (auto simp: list_ex_iff)
  then show ?thesis by (simp add: update_row_def)
qed

lemma forget_flags_patches:
  "pd_status data = ''success'' \<Longrightarrow>
   forget_flags (apply_payment_patch (verifyPatch data t) pm) =
   forget_flags (apply_payment_patch (chargePatch data t) pm)"
  by (simp add: forget_flags_def apply_payment_patch_def verifyPatch_def chargePatch_def)

lemma validTransitions_spec_edge: "(nxt \<in> set (validTransitions cur)) = spec_edge cur nxt"
  by (cases cur; cases nxt; simp add: spec_edge_def spec_transition_table_def)

section \<open>Lemmas on the validation of a request\<close>

lemma find_filter: "find P (filter Q xs) = find (\<lambda>x. Q x \<and> P x) xs"
  by (induction xs) auto

lemma find_in_findProducts:
  assumes "k \<in> set ids"
  shows "find (\<lambda>p. p_id p = k) (findProducts db ids sid) = spec_orderable_product db sid k"
  unfolding findProducts_def spec_orderable_product_def find_filter
  using assms by (intro find_cong) auto

lemma find_in_variantsOf:
  "find (\<lambda>v. v_id v = vid) (variantsOf db product) = spec_chosen_variant db (p_id product) vid"
  unfolding variantsOf_def spec_chosen_variant_def find_filter
  by (intro find_cong) auto

lemma spec_orderable_product_id:
  "spec_orderable_product db sid k = Some product \<Longrightarrow> p_id product = k"
  unfolding spec_orderable_product_def by (drule find_Some_holds) simp

lemma resolveLine_unavailable:
  assumes "productId item \<in> set ids" and "spec_line_unavailable db sid item"
  shows "isl (resolveLine db (findProducts db ids sid) item)"
proof (cases "spec_orderable_product db sid (productId item)")
  case None
  then show ?thesis
    using assms(1) by (simp add: resolveLine_def find_in_findProducts)
next
  case (Some product)
  then obtain vid where v: "variantId item = Some vid" "vid \<noteq> []"
      and bad: "case spec_chosen_variant db (productId item) vid of
                  None \<Rightarrow> True | Some variant \<Rightarrow> \<not> v_isAvailable variant"
    using assms(2) by (auto simp: spec_line_unavailable_def split: option.splits)
  have pid: "p_id product = productId item"
    using Some by (rule spec_orderable_product_id)
  have "isl (resolveVariant db product item)"
    using v bad pid
    by (auto simp: resolveVariant_def js_truthy_def find_in_variantsOf split: option.splits)
  then show ?thesis
    using Some assms(1)
    by (auto simp: resolveLine_def find_in_findProducts split: sum.splits)
qed

lemma resolveLine_short:
  assumes "productId item \<in> set ids" and "spec_line_short db sid item"
  shows "isl (resolveLine db (findProducts db ids sid) item)"
proof -
  obtain product s where p: "spec_orderable_product db sid (productId item) = Some product"
      and tr: "p_trackInventory product"
      and st: "spec_effective_stock db product item = Some s" and lt: "s < quantity item"
    using assms(2) by (auto simp: spec_line_short_def split: option.splits)
  have pid: "p_id product = productId item"
    using p by (rule spec_orderable_product_id)
  have "case resolveVariant db product item of
          Inl e \<Rightarrow> True
        | Inr (price, vname, stock) \<Rightarrow> stock = Some s"
    using st
    by (auto simp: resolveVariant_def spec_effective_stock_def js_truthy_def find_in_variantsOf
          split: option.splits if_splits)
  then show ?thesis
    using p tr lt assms(1)
    by (auto simp: resolveLine_def find_in_findProducts checkStock_def split: sum.splits)
qed

lemma resolveLines_fail:
  "item \<in> set its \<Longrightarrow> isl (resolveLine db prods item) \<Longrightarrow> isl (resolveLines db prods its)"
  by (induction its) (auto split: sum.splits)

lemma validateOrder_spec_failure:
  assumes "spec_precondition_failure db dto"
  shows "isl (validateOrder db dto)"
proof -
  let ?ids = "map productId (items dto)"
  let ?prods = "findProducts db ?ids (storeId dto)"
  have lines: "isl (resolveLines db ?prods (items dto))"
    if "list_ex (spec_line_unavailable db (storeId dto)) (items dto) \<or>
        list_ex (spec_line_short db (storeId dto)) (items dto)"
  proof -
    from that obtain item where it: "item \<in> set (items dto)"
      and bad: "spec_line_unavailable db (storeId dto) item \<or> spec_line_short db (storeId dto) item"
      by (auto simp: list_ex_iff)
    have "productId item \<in> set ?ids" using it by simp
    then have "isl (resolveLine db ?prods item)"
      using bad resolveLine_unavailable resolveLine_short by blast
    then show ?thesis using it by (rule resolveLines_fail [rotated])
  qed
  show ?thesis
    using assms lines
    by (auto simp: validateOrder_def spec_precondition_failure_def Let_def
          split: option.splits sum.splits)
qed

section \<open>Lemmas on transactions\<close>

subsection \<open>One write\<close>

lemma on_product_id [simp]:
  "on_product (OrderCreate x) = id" "on_product (OrderUpdate a b) = id"
  "on_product (PaymentUpdate c d) = id" "on_product (VariantStockAdjust e f) = id"
  by (rule ext; simp)+

lemma on_variant_id [simp]:
  "on_variant (OrderCreate x) = id" "on_variant (OrderUpdate a b) = id"
  "on_variant (PaymentUpdate c d) = id" "on_variant (ProductStockAdjust e f) = id"
  "on_variant (ProductOrderCountIncrement g h) = id"
  by (rule ext; simp)+




lemma on_product_keeps [simp]:
  "p_id (on_product w p) = p_id p"
  "p_trackInventory (on_product w p) = p_trackInventory p"
  by (cases w; simp)+

lemma on_variant_keeps [simp]:
  "v_id (on_variant w v) = v_id v"
  "v_productId (on_variant w v) = v_productId v"
  "v_price (on_variant w v) = v_price v"
  "v_name (on_variant w v) = v_name v"
  "v_isAvailable (on_variant w v) = v_isAvailable v"
  by (cases w; simp)+


lemma adjust_zero [simp]: "adjust 0 q = q"
  by (cases q) (simp_all add: adjust_def)

lemma adjust_None [simp]: "adjust d None = None"
  by (simp add: adjust_def)




subsection \<open>A list of writes\<close>

lemma fold_on_product_keeps [simp]:
  "p_id (fold on_product ws p) = p_id p"
  "p_trackInventory (fold on_product ws p) = p_trackInventory p"
  by (induction ws arbitrary: p) simp_all

lemma fold_on_variant_keeps [simp]:
  "v_id (fold on_variant ws v) = v_id v"
  "v_productId (fold on_variant ws v) = v_productId v"
  "v_price (fold on_variant ws v) = v_price v"
  "v_name (fold on_variant ws v) = v_name v"
  "v_isAvailable (fold on_variant ws v) = v_isAvailable v"
  by (induction ws arbitrary: v) simp_all









subsection \<open>Which writes can run\<close>




lemma executable_OrderUpdate:
  "executable db (OrderUpdate oid pt) = (oid \<in> set (map o_id (orders db)))"
  by (auto simp: executable_def update_row_def list_ex_iff)












subsection \<open>What a successful creation did\<close>






lemma newOrderRow_fields [simp]:
  "o_id (newOrderRow dto env n ois fee) = newOrderId env"
  "o_orderNumber (newOrderRow dto env n ois fee) = n"
  "o_status (newOrderRow dto env n ois fee) = PLACED"
  "o_items (newOrderRow dto env n ois fee) = ois"
  "o_storeId (newOrderRow dto env n ois fee) = storeId dto"
  "o_subtotal (newOrderRow dto env n ois fee) = sum_list (map oi_subtotal ois)"
  "o_deliveryFee (newOrderRow dto env n ois fee) = fee"
  "o_tax (newOrderRow dto env n ois fee) = 0"
  "o_discount (newOrderRow dto env n ois fee) = 0"
  "o_total (newOrderRow dto env n ois fee) = sum_list (map oi_subtotal ois) + fee"
  by (simp_all add: newOrderRow_def Let_def)



subsection \<open>A line and its order item\<close>






subsection \<open>Undoing runs where the original ran\<close>






subsection \<open>One line at another quantity\<close>

lemma resolveVariant_quantity [simp]:
  "resolveVariant db product (item\<lparr>quantity := q\<rparr>) = resolveVariant db product item"
  by (simp add: resolveVariant_def)








lemma map_update_same:
  "f x' = f (xs ! i) \<Longrightarrow> map f (xs[i := x']) = map f xs"
  by (induction xs arbitrary: i) (auto split: nat.splits)

lemma map_productId_quantity [simp]:
  "map productId (xs[i := (xs ! i)\<lparr>quantity := q\<rparr>]) = map productId xs"
  by (simp add: map_update_same)

subsection \<open>An accepted order names each product once\<close>









subsection \<open>The catalog after the writes, read again\<close>

lemma fold_on_product_price [simp]: "p_price (fold on_product ws p) = p_price p"
proof (induction ws arbitrary: p)
  case Nil
  then show ?case by simp
next
  case (Cons w ws)
  have "p_price (on_product w p) = p_price p" by (cases w) simp_all
  then show ?case using Cons.IH by simp
qed





section \<open>Order creation and its stock\<close>

text \<open>
  C4. When the request has a precondition failure (the store is missing, or not active
  or not published; a merchant delivery lacks the address or the city; a product or a
  chosen variant of a line is missing or unavailable; or one inventory-tracked line asks
  for more than its stock counter), \<open>createOrder\<close> returns with an exception and the
  database is the one before the call: no order row, no order item, no stock decrement
  and no order-count increment. And whatever the exception \<open>createOrder\<close> ends with,
  the database is the one before the call.
\<close>

theorem createOrder_fails_before_any_write:
  "(spec_precondition_failure db dto \<longrightarrow> (\<exists>e. createOrder db dto env = Some (Inl e, db))) \<and>
   (createOrder db dto env = Some (Inl e', db') \<longrightarrow> db' = db)"
proof
  show "spec_precondition_failure db dto \<longrightarrow> (\<exists>e. createOrder db dto env = Some (Inl e, db))"
    using validateOrder_spec_failure [of db dto]
    by (auto simp: createOrder_def split: sum.splits)
  show "createOrder db dto env = Some (Inl e', db') \<longrightarrow> db' = db"
    by (auto simp: createOrder_def Let_def split: sum.splits option.splits)
qed

theorem createOrder_fails_before_any_write_witness:
  "spec_precondition_failure shop_db (pickup_order [line ''p2'' None 1, line ''p1'' None 6]) \<and>
   (\<exists>e. createOrder shop_db (pickup_order [line ''p2'' None 1, line ''p1'' None 6]) (at_time 10)
          = Some (Inl e, shop_db))"
proof -
  have h: "spec_precondition_failure shop_db (pickup_order [line ''p2'' None 1, line ''p1'' None 6])"
    by code_simp
  show ?thesis
    using h createOrder_fails_before_any_write
            [of shop_db "pickup_order [line ''p2'' None 1, line ''p1'' None 6]" "at_time 10"]
    by blast
qed






section \<open>Payment reconciliation: the poll path and the webhook path\<close>

text \<open>
  Where the two paths do agree: when the stored payment of the reference is PENDING and
  the processor reports success with the data the webhook delivers, \<open>verifyPayment\<close> and
  the webhook's \<open>charge.success\<close> path leave the same database apart from the two flags
  \<open>webhookReceived\<close> and \<open>webhookVerified\<close> of the payment rows, and the payment of the
  reference is COMPLETED afterwards. The webhook sets \<open>webhookReceived\<close>, the poll sets
  \<open>webhookVerified\<close>.
\<close>

lemma verifyPayment_like_webhook_on_pending:
  assumes found: "findPayment db reference = Some payment"
      and answer: "verifyTransaction ps reference = Inr data"
      and success: "pd_status data = ''success''"
      and same_ref: "pd_reference data = reference"
      and pending: "pay_status payment = PAYMENT_PENDING"
  shows "forget_flags_db (snd (verifyPayment ps db reference env)) =
         forget_flags_db (snd (handleChargeSuccess db data env)) \<and>
         map_option pay_status (findPayment (snd (verifyPayment ps db reference env)) reference) =
           Some PAYMENT_COMPLETED"
proof -
  let ?upd = "\<lambda>pt. db\<lparr>payments :=
             map (\<lambda>r. if pay_id r = pay_id payment then apply_payment_patch pt r else r) (payments db)\<rparr>"
  let ?ou = "OrderUpdate (pay_orderId payment) (paidPatch (now env))"
  have V: "snd (verifyPayment ps db reference env) =
           (case exec_op ?ou (?upd (verifyPatch data (now env))) of
              None \<Rightarrow> ?upd (verifyPatch data (now env)) | Some d \<Rightarrow> d)"
    using found answer success
    by (simp add: verifyPayment_def exec_PaymentUpdate_found [OF found] Let_def
          del: exec_op.simps split: option.splits)
  have W: "snd (handleChargeSuccess db data env) =
           (case exec_op ?ou (?upd (chargePatch data (now env))) of
              None \<Rightarrow> ?upd (chargePatch data (now env)) | Some d \<Rightarrow> d)"
    using found pending same_ref
    by (simp add: handleChargeSuccess_def exec_PaymentUpdate_found [OF found]
          del: exec_op.simps split: option.splits)
  have eq: "forget_flags_db (snd (verifyPayment ps db reference env)) =
         forget_flags_db (snd (handleChargeSuccess db data env))"
    unfolding V W
    by (cases "exec_op ?ou db")
       (simp_all add: exec_OrderUpdate_ignores_payments forget_flags_db_def
          forget_flags_patches [OF success] del: exec_op.simps)
  have st: "map_option pay_status (findPayment (snd (verifyPayment ps db reference env)) reference) =
           Some PAYMENT_COMPLETED"
    unfolding V using found success
    by (cases "exec_op ?ou db")
       (simp_all add: exec_OrderUpdate_ignores_payments findPayment_def find_map_same
          apply_payment_patch_def verifyPatch_def del: exec_op.simps)
  show ?thesis using eq st by simp
qed

lemma reconciliation_flags_on_pending:
  "map payment_view (payments pending_db) = [(PAYMENT_PENDING, None, False, False)] \<and>
   map payment_view (payments (snd (handleChargeSuccess pending_db charge_ok (at_time 15))))
     = [(PAYMENT_COMPLETED, Some 15, True, False)] \<and>
   map payment_view
     (payments (snd (verifyPayment (processor ''success'') pending_db ''ref1'' (at_time 15))))
     = [(PAYMENT_COMPLETED, Some 15, False, True)]"
  by code_simp

text \<open>
  C1 (the code at the failing input). The webhook's \<open>charge.success\<close> path writes only
  when the stored payment is PENDING; \<open>verifyPayment\<close> makes no such test. Payment
  \<open>ref1\<close> was completed by the webhook at time 15 and its order has since been moved
  to READY_FOR_PICKUP. For the same successful charge at time 20 the webhook path
  leaves the database as it is, while \<open>verifyPayment\<close> sets the payment's \<open>verifiedAt\<close>
  and the order's \<open>paidAt\<close> to 20 and puts the order back in PREPARING. The states the
  two paths leave differ, also with the flags \<open>webhookReceived\<close> and \<open>webhookVerified\<close>
  set aside.
\<close>

theorem verifyPayment_writes_where_webhook_skips:
  "verifyTransaction (processor ''success'') ''ref1'' = Inr charge_ok \<and>
   map payment_view (payments ready_db) = [(PAYMENT_COMPLETED, Some 15, True, False)] \<and>
   map order_view (orders ready_db) = [(READY_FOR_PICKUP, PAYMENT_COMPLETED, Some 15)] \<and>
   handleChargeSuccess ready_db charge_ok (at_time 20) = (None, ready_db) \<and>
   map payment_view
     (payments (snd (verifyPayment (processor ''success'') ready_db ''ref1'' (at_time 20))))
     = [(PAYMENT_COMPLETED, Some 20, True, True)] \<and>
   map order_view
     (orders (snd (verifyPayment (processor ''success'') ready_db ''ref1'' (at_time 20))))
     = [(PREPARING, PAYMENT_COMPLETED, Some 20)] \<and>
   forget_flags_db (snd (verifyPayment (processor ''success'') ready_db ''ref1'' (at_time 20))) \<noteq>
   forget_flags_db (snd (handleChargeSuccess ready_db charge_ok (at_time 20)))"
  by code_simp

lemma handleChargeSuccess_skips_settled:
  assumes "findPayment db (pd_reference data) = Some payment"
      and "pay_status payment \<noteq> PAYMENT_PENDING"
  shows "handleChargeSuccess db data env = (None, db)"
  using assms by (simp add: handleChargeSuccess_def)

text \<open>
  C2 (the code at the failing inputs). \<open>verifyPayment\<close> writes the payment whatever
  its status. A payment completed at time 15, whose order the merchant has moved on to
  READY_FOR_PICKUP, is verified again at time 20: the payment's \<open>verifiedAt\<close> and the
  order's \<open>paidAt\<close> become 20 and the order is back in PREPARING; with a processor
  answer other than success the completed payment becomes FAILED. A payment marked
  FAILED by a poll at time 12 becomes COMPLETED by the next poll.
\<close>

theorem verifyPayment_rewrites_settled_payment:
  "map payment_view (payments ready_db) = [(PAYMENT_COMPLETED, Some 15, True, False)] \<and>
   map order_view (orders ready_db) = [(READY_FOR_PICKUP, PAYMENT_COMPLETED, Some 15)] \<and>
   map payment_view
     (payments (snd (verifyPayment (processor ''success'') ready_db ''ref1'' (at_time 20))))
     = [(PAYMENT_COMPLETED, Some 20, True, True)] \<and>
   map order_view
     (orders (snd (verifyPayment (processor ''success'') ready_db ''ref1'' (at_time 20))))
     = [(PREPARING, PAYMENT_COMPLETED, Some 20)] \<and>
   map payment_view
     (payments (snd (verifyPayment (processor ''abandoned'') ready_db ''ref1'' (at_time 20))))
     = [(PAYMENT_FAILED, None, True, True)] \<and>
   map payment_view
     (payments (snd (verifyPayment (processor ''abandoned'') pending_db ''ref1'' (at_time 12))))
     = [(PAYMENT_FAILED, None, False, True)] \<and>
   map payment_view
     (payments (snd (verifyPayment (processor ''success'')
        (snd (verifyPayment (processor ''abandoned'') pending_db ''ref1'' (at_time 12)))
        ''ref1'' (at_time 20))))
     = [(PAYMENT_COMPLETED, Some 20, False, True)]"
  by code_simp

subsection \<open>Two reconciliation calls in flight\<close>

text \<open>A call run alone is the function it was cut from.\<close>

lemma run_call_webhook:
  "run_call ps env (WebhookStart data) db =
     (Finished (fst (handleChargeSuccess db data env)), snd (handleChargeSuccess db data env))"
  by (simp add: run_call_def handleChargeSuccess_def del: exec_op.simps
        split: option.splits)

lemma run_call_verify:
  "run_call ps env (VerifyStart reference) db =
     (Finished (case fst (verifyPayment ps db reference env) of Inl e \<Rightarrow> Some e | Inr r \<Rightarrow> None),
      snd (verifyPayment ps db reference env))"
  by (simp add: run_call_def verifyPayment_def Let_def del: exec_op.simps
        split: option.splits sum.splits)

text \<open>
  C3 (the code at the failing schedule). A webhook delivery (clock 20) and a poll
  (clock 30) for the same pending payment: the webhook reads the payment, the poll
  asks the processor and reads the payment, and both hold a PENDING row. The webhook
  then writes the payment and the order; the poll writes both again: the payment's
  \<open>verifiedAt\<close> and the order's \<open>paidAt\<close> go from 20 to 30 and the payment carries
  both flags. Both calls end without an error.
\<close>

theorem webhook_and_poll_both_write:
  "map_option pay_status (observed (fst (interleave (processor ''success'') (at_time 20) (at_time 30)
      [True, False, False] (WebhookStart charge_ok, VerifyStart ''ref1'', pending_db))))
     = Some PAYMENT_PENDING \<and>
   map_option pay_status (observed (fst (snd (interleave (processor ''success'') (at_time 20) (at_time 30)
      [True, False, False] (WebhookStart charge_ok, VerifyStart ''ref1'', pending_db)))))
     = Some PAYMENT_PENDING \<and>
   map payment_view (payments (snd (snd (interleave (processor ''success'') (at_time 20) (at_time 30)
      [True, False, False, True, True] (WebhookStart charge_ok, VerifyStart ''ref1'', pending_db)))))
     = [(PAYMENT_COMPLETED, Some 20, True, False)] \<and>
   map order_view (orders (snd (snd (interleave (processor ''success'') (at_time 20) (at_time 30)
      [True, False, False, True, True] (WebhookStart charge_ok, VerifyStart ''ref1'', pending_db)))))
     = [(PREPARING, PAYMENT_COMPLETED, Some 20)] \<and>
   map payment_view (payments (snd (snd (interleave (processor ''success'') (at_time 20) (at_time 30)
      [True, False, False, True, True, False, False]
      (WebhookStart charge_ok, VerifyStart ''ref1'', pending_db)))))
     = [(PAYMENT_COMPLETED, Some 30, True, True)] \<and>
   map order_view (orders (snd (snd (interleave (processor ''success'') (at_time 20) (at_time 30)
      [True, False, False, True, True, False, False]
      (WebhookStart charge_ok, VerifyStart ''ref1'', pending_db)))))
     = [(PREPARING, PAYMENT_COMPLETED, Some 30)] \<and>
   fst (interleave (processor ''success'') (at_time 20) (at_time 30)
      [True, False, False, True, True, False, False]
      (WebhookStart charge_ok, VerifyStart ''ref1'', pending_db)) = Finished None \<and>
   fst (snd (interleave (processor ''success'') (at_time 20) (at_time 30)
      [True, False, False, True, True, False, False]
      (WebhookStart charge_ok, VerifyStart ''ref1'', pending_db))) = Finished None"
  by code_simp

section \<open>The order status state machine\<close>

text \<open>
  C5. For an order that exists and a caller who is the merchant owning its store:
  \<open>updateOrderStatus\<close> with a requested status succeeds exactly when (current status,
  requested status) is an edge of the transition table of section 4.1. On an edge the
  stored order has the new status, exactly one more status-history entry (for the new
  status, at the time of the call), and the timestamp field of the new status set when
  it has one, every other timestamp kept. Off the table the call fails with the
  invalid-transition error and the database is the one before the call.
\<close>

theorem updateOrderStatus_follows_table:
  assumes found: "find (\<lambda>x. o_id x = orderId) (orders db) = Some ord"
      and owner: "\<not> notOwner db ord userId"
      and req: "us_status dto = Some st"
  shows "if spec_edge (o_status ord) st
         then (\<exists>updated db'.
                 updateOrderStatus db userId orderId dto env = (Inr updated, db') \<and>
                 find (\<lambda>x. o_id x = orderId) (orders db') = Some updated \<and>
                 o_status updated = st \<and>
                 (\<exists>note. o_statusHistory updated =
                    o_statusHistory ord @ [\<lparr> h_status = st, h_timestamp = now env, h_note = note \<rparr>]) \<and>
                 o_acceptedAt updated = (if st = ACCEPTED then Some (now env) else o_acceptedAt ord) \<and>
                 o_preparingAt updated = (if st = PREPARING then Some (now env) else o_preparingAt ord) \<and>
                 o_readyAt updated = (if st = READY_FOR_PICKUP then Some (now env) else o_readyAt ord) \<and>
                 o_deliveredAt updated = (if st = DELIVERED then Some (now env) else o_deliveredAt ord) \<and>
                 o_completedAt updated = (if st = COMPLETED then Some (now env) else o_completedAt ord) \<and>
                 o_cancelledAt updated = (if st = CANCELLED then Some (now env) else o_cancelledAt ord))
         else updateOrderStatus db userId orderId dto env =
                (Inl (InvalidTransition (o_status ord) (Some st)), db)"
proof (cases "spec_edge (o_status ord) st")
  case False
  then show ?thesis
    using found owner req
    by (simp add: updateOrderStatus_def validateStatusTransition_def validTransitions_spec_edge)
next
  case True
  let ?pt = "statusPatch ord dto (now env)"
  let ?db' = "db\<lparr>orders := map (\<lambda>r. if o_id r = orderId then apply_order_patch ?pt r else r) (orders db)\<rparr>"
  have run: "updateOrderStatus db userId orderId dto env = (Inr (apply_order_patch ?pt ord), ?db')"
    using found owner req True
    by (simp add: updateOrderStatus_def validateStatusTransition_def validTransitions_spec_edge
          exec_OrderUpdate_found [OF found] del: exec_op.simps)
  have stored: "find (\<lambda>x. o_id x = orderId) (orders ?db') = Some (apply_order_patch ?pt ord)"
    using find_update_row [OF found, of "apply_order_patch ?pt"] by simp
  have fields: "o_status (apply_order_patch ?pt ord) = st"
    "\<exists>note. o_statusHistory (apply_order_patch ?pt ord) =
        o_statusHistory ord @ [\<lparr> h_status = st, h_timestamp = now env, h_note = note \<rparr>]"
    "o_acceptedAt (apply_order_patch ?pt ord) = (if st = ACCEPTED then Some (now env) else o_acceptedAt ord)"
    "o_preparingAt (apply_order_patch ?pt ord) = (if st = PREPARING then Some (now env) else o_preparingAt ord)"
    "o_readyAt (apply_order_patch ?pt ord) = (if st = READY_FOR_PICKUP then Some (now env) else o_readyAt ord)"
    "o_deliveredAt (apply_order_patch ?pt ord) = (if st = DELIVERED then Some (now env) else o_deliveredAt ord)"
    "o_completedAt (apply_order_patch ?pt ord) = (if st = COMPLETED then Some (now env) else o_completedAt ord)"
    "o_cancelledAt (apply_order_patch ?pt ord) = (if st = CANCELLED then Some (now env) else o_cancelledAt ord)"
    using req
    by (simp_all add: apply_order_patch_def statusPatch_def no_patch_def keep_def stamp_def
          historyAfterUpdate_def)
  show ?thesis
    using True run stored fields by simp
qed

theorem updateOrderStatus_follows_table_witness:
  "(\<exists>updated db'.
      updateOrderStatus (shop_with PLACED []) ''u1'' ''o1'' (request_status ACCEPTED) (at_time 12)
        = (Inr updated, db') \<and>
      o_status updated = ACCEPTED \<and> o_acceptedAt updated = Some 12) \<and>
   updateOrderStatus (shop_with DELIVERED []) ''u1'' ''o1'' (request_status PREPARING) (at_time 12)
     = (Inl (InvalidTransition DELIVERED (Some PREPARING)), shop_with DELIVERED [])"
proof -
  have f1: "find (\<lambda>x. o_id x = ''o1'') (orders (shop_with PLACED [])) = Some (kente_order PLACED)"
    by code_simp
  have o1: "\<not> notOwner (shop_with PLACED []) (kente_order PLACED) ''u1''"
    by code_simp
  have f2: "find (\<lambda>x. o_id x = ''o1'') (orders (shop_with DELIVERED [])) = Some (kente_order DELIVERED)"
    by code_simp
  have o2: "\<not> notOwner (shop_with DELIVERED []) (kente_order DELIVERED) ''u1''"
    by code_simp
  have r: "us_status (request_status st) = Some st" for st
    by (simp add: request_status_def)
  have e1: "spec_edge (o_status (kente_order PLACED)) ACCEPTED"
    by code_simp
  have e2: "\<not> spec_edge (o_status (kente_order DELIVERED)) PREPARING"
    by code_simp
  have s2: "o_status (kente_order DELIVERED) = DELIVERED"
    by code_simp
  show ?thesis
    using updateOrderStatus_follows_table [OF f1 o1 r [of ACCEPTED], of "at_time 12"]
      updateOrderStatus_follows_table [OF f2 o2 r [of PREPARING], of "at_time 12"] e1 e2 s2
    by (auto simp: at_time_def)
qed

section \<open>Cancellation\<close>

lemma cancelOrder_rejects_terminal:
  assumes "find (\<lambda>x. o_id x = orderId) (orders db) = Some ord"
      and "o_status ord = DELIVERED \<or> o_status ord = COMPLETED \<or> o_status ord = CANCELLED"
  shows "cancelOrder db orderId dto userId env = (Inl (CannotCancel (o_status ord)), db)"
  using assms by (auto simp: cancelOrder_def)

lemma cancelOrder_rejects_other_user:
  assumes "find (\<lambda>x. o_id x = orderId) (orders db) = Some ord"
      and "o_status ord \<notin> {PLACED, DELIVERED, COMPLETED, CANCELLED}"
      and "u \<noteq> []" and "notOwner db ord u"
  shows "cancelOrder db orderId dto (Some u) env = (Inl OnlyMerchantCanCancel, db)"
  using assms by (auto simp: cancelOrder_def js_truthy_def)

text \<open>
  C7 (the code at the failing input). An accepted order is cancelled by a caller who
  presents no user id: the call succeeds, the order is CANCELLED and the stock goes
  from 3 back to 5.
\<close>

theorem cancelOrder_anonymous_after_accept:
  "fst (cancelOrder (shop_with ACCEPTED []) ''o1'' no_reason None (at_time 11)) =
     Inr ''ORD-00000001001'' \<and>
   map o_status (orders (snd (cancelOrder (shop_with ACCEPTED []) ''o1'' no_reason None (at_time 11))))
     = [CANCELLED] \<and>
   stock_levels (shop_with ACCEPTED []) = ([(''p1'', Some 3), (''p2'', None)], [(''v1'', Some 3)]) \<and>
   stock_levels (snd (cancelOrder (shop_with ACCEPTED []) ''o1'' no_reason None (at_time 11)))
     = ([(''p1'', Some 5), (''p2'', None)], [(''v1'', Some 3)])"
  by code_simp

section \<open>Webhook signature\<close>

text \<open>
  C8. When the HMAC-SHA-512 hex digest of the raw body under the secret key is not the
  signature of the header, \<open>handleWebhook\<close> throws the invalid-signature error and
  the database is the one before the call, whatever the body parses to.
\<close>

theorem handleWebhook_rejects_bad_signature:
  assumes "hmac_sha512_hex ps (secretKey ps) body \<noteq> signature"
  shows "handleWebhook ps parse db signature body env = (Inl InvalidWebhookSignature, db)"
  using assms by (simp add: handleWebhook_def verifyWebhookSignature_def)

theorem handleWebhook_rejects_bad_signature_witness:
  "hmac_sha512_hex (processor ''success'') (secretKey (processor ''success'')) ''charge.success ref1''
     \<noteq> ''forged'' \<and>
   handleWebhook (processor ''success'')
     (\<lambda>body. Some \<lparr> ev_event = ''charge.success'', ev_data = charge_ok \<rparr>)
     (shop_with PLACED [kente_payment PAYMENT_PENDING]) ''forged'' ''charge.success ref1'' (at_time 15)
   = (Inl InvalidWebhookSignature, shop_with PLACED [kente_payment PAYMENT_PENDING])"
proof -
  have h: "hmac_sha512_hex (processor ''success'') (secretKey (processor ''success''))
             ''charge.success ref1'' \<noteq> ''forged''"
    by (simp add: processor_def)
  show ?thesis
    using h handleWebhook_rejects_bad_signature [OF h] by simp
qed

section \<open>Public tracking\<close>

text \<open>
  C9 (as stated, refuted). A tracking request that supplies no phone receives the order.
\<close>

theorem trackOrder_without_phone:
  "map_sum id o_customerPhone
     (trackOrder (shop_with PLACED []) ''ORD-00000001001'' None) = Inr ''0244123456''"
  by code_simp

text \<open>
  C9 (amended). For an order number that exists, the tracking lookup returns the order
  when the request supplies no phone or an empty one, or supplies the order's recorded
  customer phone; a request that supplies a non-empty phone different from the recorded
  one is rejected with the forbidden error.
\<close>

theorem trackOrder_checks_supplied_phone:
  assumes "find (\<lambda>x. o_orderNumber x = orderNumber) (orders db) = Some ord"
  shows "trackOrder db orderNumber phone =
           (if js_truthy phone \<and> phone \<noteq> Some (o_customerPhone ord)
            then Inl InvalidOrderOrPhone else Inr ord)"
  using assms by (auto simp: trackOrder_def getOrderByNumber_def)

theorem trackOrder_checks_supplied_phone_witness:
  "trackOrder (shop_with PLACED []) ''ORD-00000001001'' (Some ''0200000000'') =
     Inl InvalidOrderOrPhone \<and>
   map_sum id o_id (trackOrder (shop_with PLACED []) ''ORD-00000001001'' (Some ''0244123456'')) =
     Inr ''o1''"
proof -
  have f: "find (\<lambda>x. o_orderNumber x = ''ORD-00000001001'') (orders (shop_with PLACED [])) =
             Some (kente_order PLACED)"
    by code_simp
  have ph: "o_customerPhone (kente_order PLACED) = ''0244123456''"
    and oid: "o_id (kente_order PLACED) = ''o1''"
    by code_simp+
  show ?thesis
    using trackOrder_checks_supplied_phone [OF f, of "Some ''0200000000''"]
      trackOrder_checks_supplied_phone [OF f, of "Some ''0244123456''"] ph oid
    by (simp add: js_truthy_def)
qed

end
